theory Spec2Isabelle
  imports Main
begin

section \<open>Index data model (hce.ts)\<close>

text \<open>
  The server's JSON types, as \<^verbatim>\<open>hce.ts\<close> declares them. An object type is a record, a
  tagged union a datatype, an optional field an \<open>option\<close>, a JavaScript \<^verbatim>\<open>Map\<close> a
  partial function, a JSON object used as a dictionary an association list (its entries in
  key order). Field names are the source's; where two object types share a field name the
  selector is written qualified (\<open>PackageId.name\<close>, \<open>ApproximateLocationData.name\<close>).
  Line and column numbers sent by the server are \<open>int\<close>: nothing in the extension checks
  that they are positive before it subtracts one.
\<close>

type_synonym InternalId = string
type_synonym ExternalId = string
type_synonym OccurenceId = string
type_synonym HaskellModulePath = string
type_synonym HaskellModuleName = string
type_synonym ComponentId = string
type_synonym Version = string
type_synonym HTML = string
type_synonym OccName = string

record PackageId =
  name :: string
  version :: Version

datatype LocatableEntity = Typ | Val | Inst | Mod

record ExactLocationData =
  packageId :: PackageId
  modulePath :: HaskellModulePath
  moduleName :: HaskellModuleName
  startLine :: int
  endLine :: int
  startColumn :: int
  endColumn :: int

record ApproximateLocationData =
  packageId :: PackageId
  moduleName :: HaskellModuleName
  entity :: LocatableEntity
  name :: string
  haddockAnchorId :: "string option"
  componentId :: ComponentId

datatype LocationInfo =
    ExactLocation ExactLocationData
  | ApproximateLocation ApproximateLocationData
  | UnknownLocation

datatype TypeComponent = Text string | TyCon InternalId string

record Type =
  components :: "TypeComponent list"
  componentsExpanded :: "TypeComponent list option"

datatype NameSort = External | Internal

record IntentifierInfo =
  sort :: NameSort
  occName :: OccName
  demangledOccName :: string
  locationInfo :: LocationInfo
  idType :: Type
  externalId :: "ExternalId option"

datatype IdentifierOccurrenceSort = ValueId | TypeId | ModuleId LocationInfo

record IdentifierOccurrence =
  internalId :: "InternalId option"
  isBinder :: bool
  idOccType :: "Type option"
  sort :: IdentifierOccurrenceSort

record ModuleInfo =
  identifiers :: "InternalId \<rightharpoonup> IntentifierInfo"
  occurrences :: "OccurenceId \<rightharpoonup> IdentifierOccurrence"

record DefinitionSite =
  location :: LocationInfo
  doc :: "HTML option"

record HaskellModuleResponse =
  identifiers :: "(string \<times> IntentifierInfo) list"
  occurrences :: "(string \<times> IdentifierOccurrence) list"

record GlobalReferences =
  count :: int
  packageId :: string

record IdentifierSrcSpan =
  modulePath :: HaskellModulePath
  line :: int
  startColumn :: int
  endColumn :: int

record ReferenceWithSource =
  sourceCodeHtml :: string
  idSrcSpan :: IdentifierSrcSpan

record SourceFile =
  name :: string
  references :: "ReferenceWithSource list"

section \<open>Extension state and its collaborators (extension.ts)\<close>

type_synonym AbsoluteFilePath = string
type_synonym DefinitionSiteUri = string

record ReferenceWithPackageId =
  packageIdString :: string
  idSrcSpan :: IdentifierSrcSpan

record PackageInfo =
  packageId :: PackageId
  packageFolder :: AbsoluteFilePath

record GlobalState =
  haskellModules :: "AbsoluteFilePath \<rightharpoonup> ModuleInfo"
  definitionSites :: "DefinitionSiteUri \<rightharpoonup> DefinitionSite"
  references :: "ExternalId \<rightharpoonup> ReferenceWithPackageId list"
  haskellPackages :: "PackageInfo list"

text \<open>
  The editor's values. A \<^verbatim>\<open>vscode.Position\<close> holds two non-negative integers, each a
  JavaScript number (an IEEE double with an integer value). A
  \<^verbatim>\<open>vscode.Location\<close> built by the extension is recorded as the path given to
  \<^verbatim>\<open>vscode.Uri.file\<close> and the four numbers given to \<^verbatim>\<open>new vscode.Range\<close>, in argument
  order; what the editor's constructors do with them is outside this repository.
\<close>

record Position =
  line :: nat
  character :: nat

record Range =
  start :: Position
  "end" :: Position

record Location =
  uri :: string
  startLine :: int
  startCharacter :: int
  endLine :: int
  endCharacter :: int

record TextDocument =
  uriScheme :: string
  uriPath :: string
  languageId :: string

text \<open>
  What \<^verbatim>\<open>axios.get\<close> does with a URL: it resolves with a body (\<open>Data\<close>), it resolves with
  a falsy body (\<open>NoData\<close>), or it throws one of the three errors \<^verbatim>\<open>fetch\<close> tells apart.
\<close>

datatype 'a Response = is_Data: Data 'a | NoData | ConnectionRefused | NotFound | OtherFailure

text \<open>
  Everything the extension reads from outside: the \<^verbatim>\<open>haskellCodeExplorer.host\<close> setting,
  the server behind \<^verbatim>\<open>axios.get\<close> (one function per endpoint, by the type the caller
  expects), \<^verbatim>\<open>encodeURIComponent\<close>, Node's \<^verbatim>\<open>path.relative\<close>, the editor's
  \<^verbatim>\<open>document.getWordRangeAtPosition\<close> with \<^verbatim>\<open>WORD_PATTERN\<close>, and what JavaScript's
  number-to-string conversion writes for an integer above \<open>2^53\<close> (the shortest digits
  that read back as the same double, and exponent notation from \<open>1e21\<close> on).
\<close>

record Env =
  hostSetting :: "string option"
  getModule :: "string \<Rightarrow> HaskellModuleResponse Response"
  getDefinitionSite :: "string \<Rightarrow> DefinitionSite Response"
  getGlobalReferences :: "string \<Rightarrow> GlobalReferences list Response"
  getReferences :: "string \<Rightarrow> SourceFile list Response"
  encodeURIComponent :: "string \<Rightarrow> string"
  pathRelative :: "string \<Rightarrow> string \<Rightarrow> string"
  wordRangeAtPosition :: "TextDocument \<Rightarrow> Position \<Rightarrow> Range option"
  largeNumberToString :: "nat \<Rightarrow> string"

text \<open>
  An asynchronous function of the extension returns its value, the state it leaves and the
  URLs it passed to \<^verbatim>\<open>axios.get\<close>, in the order the requests were started.
\<close>

type_synonym 'a Eff = "'a \<times> GlobalState \<times> string list"

section \<open>URLs and cache keys\<close>

definition DEFAULT_HCE_HOST :: string where
  "DEFAULT_HCE_HOST = ''http://localhost:8080''"

definition STATIC_URL_PREFIX :: string where
  "STATIC_URL_PREFIX = ''files''"

definition API_URL_PREFIX :: string where
  "API_URL_PREFIX = ''api''"

definition HCE_INDEX_DIRECTORY :: string where
  "HCE_INDEX_DIRECTORY = ''.haskell-code-explorer''"

text \<open>\<^verbatim>\<open>get("host") || DEFAULT_HCE_HOST\<close>: a missing or empty setting is falsy.\<close>

definition getHceHost :: "Env \<Rightarrow> string" where
  "getHceHost env =
     (case hostSetting env of
        None \<Rightarrow> DEFAULT_HCE_HOST
      | Some h \<Rightarrow> if h = [] then DEFAULT_HCE_HOST else h)"

definition packageIdToString :: "PackageId \<Rightarrow> string" where
  "packageIdToString p = PackageId.name p @ ''-'' @ version p"

text \<open>\<^verbatim>\<open>str.replace(/\./g, rep)\<close>: a left-to-right scan that replaces each match.\<close>

primrec replaceChar :: "char \<Rightarrow> string \<Rightarrow> string \<Rightarrow> string" where
  "replaceChar c rep [] = []"
| "replaceChar c rep (x # xs) =
     (if x = c then rep @ replaceChar c rep xs else x # replaceChar c rep xs)"

definition fixUrlDots :: "string \<Rightarrow> string" where
  "fixUrlDots str =
     (if str = ''.'' then ''%20%2E''
      else if str = ''..'' then ''%20%2E%2E''
      else replaceChar (CHR ''.'') ''%2E'' str)"

primrec entityString :: "LocatableEntity \<Rightarrow> string" where
  "entityString Typ = ''Typ''"
| "entityString Val = ''Val''"
| "entityString Inst = ''Inst''"
| "entityString Mod = ''Mod''"

fun getDefinitionSiteUri :: "LocationInfo \<Rightarrow> DefinitionSiteUri option" where
  "getDefinitionSiteUri (ApproximateLocation l) =
     (let nm = (if entity l = Mod then ApproximateLocationData.moduleName l
                  else ApproximateLocationData.name l)
      in Some (packageIdToString (ApproximateLocationData.packageId l) @ ''/'' @
               componentId l @ ''/'' @
               ApproximateLocationData.moduleName l @ ''/'' @
               entityString (entity l) @ ''/'' @
               fixUrlDots nm))"
| "getDefinitionSiteUri _ = None"

text \<open>String concatenation with \<^verbatim>\<open>undefined\<close> appends the word itself.\<close>

definition definitionSiteUrl :: "Env \<Rightarrow> LocationInfo \<Rightarrow> string" where
  "definitionSiteUrl env loc =
     getHceHost env @ ''/'' @ API_URL_PREFIX @ ''/definitionSite/'' @
     (case getDefinitionSiteUri loc of None \<Rightarrow> ''undefined'' | Some u \<Rightarrow> u)"

definition globalReferencesUrl :: "Env \<Rightarrow> string \<Rightarrow> string" where
  "globalReferencesUrl env extId =
     getHceHost env @ ''/'' @ API_URL_PREFIX @ ''/globalReferences/'' @
     encodeURIComponent env extId"

definition referencesUrl :: "Env \<Rightarrow> string \<Rightarrow> string \<Rightarrow> string" where
  "referencesUrl env pkgId extId =
     getHceHost env @ ''/'' @ API_URL_PREFIX @ ''/references/'' @ pkgId @ ''/'' @
     encodeURIComponent env extId @ ''?per_page=500''"

definition haskellModuleUrl :: "Env \<Rightarrow> PackageInfo \<Rightarrow> TextDocument \<Rightarrow> string" where
  "haskellModuleUrl env packageInfo document =
     getHceHost env @ ''/'' @ STATIC_URL_PREFIX @ ''/'' @
     packageIdToString (PackageInfo.packageId packageInfo) @ ''/'' @
     HCE_INDEX_DIRECTORY @ ''/'' @
     encodeURIComponent env
       (encodeURIComponent env
          (pathRelative env (packageFolder packageInfo) (uriPath document))) @
     ''.json''"

section \<open>Fetching\<close>

text \<open>
  \<^verbatim>\<open>fetch\<close> logs the URL, awaits \<^verbatim>\<open>axios.get\<close> and returns the body; a falsy body and
  each caught error give \<^verbatim>\<open>undefined\<close>. Nothing is rethrown.
\<close>

definition fetch :: "(string \<Rightarrow> 'a Response) \<Rightarrow> string \<Rightarrow> 'a option \<times> string list" where
  "fetch axiosGet url =
     (case axiosGet url of
        Data d \<Rightarrow> (Some d, [url])
      | NoData \<Rightarrow> (None, [url])
      | ConnectionRefused \<Rightarrow> (None, [url])
      | NotFound \<Rightarrow> (None, [url])
      | OtherFailure \<Rightarrow> (None, [url]))"

text \<open>\<^verbatim>\<open>new Map(Object.keys(obj).map(k => [k, obj[k]]))\<close>: the entries are set in turn.\<close>

definition mapFromObject :: "(string \<times> 'v) list \<Rightarrow> (string \<rightharpoonup> 'v)" where
  "mapFromObject obj = foldl (\<lambda>m (k, v). m(k \<mapsto> v)) Map.empty obj"

definition fetchHaskellModule ::
  "Env \<Rightarrow> GlobalState \<Rightarrow> PackageInfo \<Rightarrow> TextDocument \<Rightarrow> ModuleInfo option Eff" where
  "fetchHaskellModule env gs packageInfo document =
     (let url = haskellModuleUrl env packageInfo document in
      case fetch (getModule env) url of
        (None, urls) \<Rightarrow> (None, gs, urls)
      | (Some d, urls) \<Rightarrow>
          (let moduleInfo =
                 \<lparr>ModuleInfo.identifiers = mapFromObject (HaskellModuleResponse.identifiers d),
                  ModuleInfo.occurrences = mapFromObject (HaskellModuleResponse.occurrences d)\<rparr>
           in (Some moduleInfo,
               gs\<lparr>haskellModules := (haskellModules gs)(uriPath document \<mapsto> moduleInfo)\<rparr>,
               urls)))"

text \<open>\<^verbatim>\<open>!definitionSiteUri\<close> holds for \<^verbatim>\<open>undefined\<close> and for the empty string.\<close>

definition fetchDefinitionSite ::
  "Env \<Rightarrow> GlobalState \<Rightarrow> LocationInfo \<Rightarrow> DefinitionSite option Eff" where
  "fetchDefinitionSite env gs loc =
     (case getDefinitionSiteUri loc of
        None \<Rightarrow> (None, gs, [])
      | Some definitionSiteUri \<Rightarrow>
          if definitionSiteUri = [] then (None, gs, [])
          else
            (case fetch (getDefinitionSite env) (definitionSiteUrl env loc) of
               (None, urls) \<Rightarrow> (None, gs, urls)
             | (Some definitionSite, urls) \<Rightarrow>
                 (Some definitionSite,
                  gs\<lparr>definitionSites :=
                       (definitionSites gs)(definitionSiteUri \<mapsto> definitionSite)\<rparr>,
                  urls)))"

text \<open>
  The two \<^verbatim>\<open>forEach\<close> loops that grow \<^verbatim>\<open>references\<close> by \<^verbatim>\<open>concat\<close> are left folds.
  \<^verbatim>\<open>fetchReferencesInPackage\<close> writes no state.
\<close>

definition fetchReferencesInPackage ::
  "Env \<Rightarrow> string \<Rightarrow> string \<Rightarrow> ReferenceWithPackageId list \<times> string list" where
  "fetchReferencesInPackage env pkgIdString extId =
     (case fetch (getReferences env) (referencesUrl env pkgIdString extId) of
        (None, urls) \<Rightarrow> ([], urls)
      | (Some sourceFiles, urls) \<Rightarrow>
          (foldl
             (\<lambda>refs sourceFile.
                refs @
                map (\<lambda>x. \<lparr>packageIdString = pkgIdString,
                           ReferenceWithPackageId.idSrcSpan = ReferenceWithSource.idSrcSpan x\<rparr>)
                    (SourceFile.references sourceFile))
             [] sourceFiles,
           urls))"

text \<open>
  \<^verbatim>\<open>Promise.all\<close> over the mapped array: every per-package call is started in array order
  (each runs up to its \<^verbatim>\<open>axios.get\<close> before the next one starts), and the array of
  results is in the order of the array of promises, whichever request completes first.
\<close>

definition fetchAllReferences ::
  "Env \<Rightarrow> GlobalState \<Rightarrow> ExternalId \<Rightarrow> ReferenceWithPackageId list option Eff" where
  "fetchAllReferences env gs extId =
     (case fetch (getGlobalReferences env) (globalReferencesUrl env extId) of
        (None, urls) \<Rightarrow> (None, gs, urls)
      | (Some globalReferences, urls) \<Rightarrow>
          (let result = map (\<lambda>globalReference.
                               fetchReferencesInPackage env
                                 (GlobalReferences.packageId globalReference) extId)
                            globalReferences;
               refs = foldl (\<lambda>acc item. acc @ item) [] (map fst result)
           in (Some refs,
               gs\<lparr>references := (references gs)(extId \<mapsto> refs)\<rparr>,
               urls @ concat (map snd result))))"

section \<open>Package registry and location translation\<close>

definition packageIdToFolderPath :: "GlobalState \<Rightarrow> string \<Rightarrow> AbsoluteFilePath option" where
  "packageIdToFolderPath gs pkgIdString =
     (case find (\<lambda>p. packageIdToString (PackageInfo.packageId p) = pkgIdString)
                (haskellPackages gs) of
        None \<Rightarrow> None
      | Some packageInfo \<Rightarrow> Some (packageFolder packageInfo))"

text \<open>\<^verbatim>\<open>!packageFolderPath\<close> holds for \<^verbatim>\<open>undefined\<close> and for the empty string.\<close>

fun haskellLocationtoVscodeLocation :: "GlobalState \<Rightarrow> LocationInfo \<Rightarrow> Location option" where
  "haskellLocationtoVscodeLocation gs (ExactLocation l) =
     (case packageIdToFolderPath gs (packageIdToString (ExactLocationData.packageId l)) of
        None \<Rightarrow> None
      | Some packageFolderPath \<Rightarrow>
          if packageFolderPath = [] then None
          else Some \<lparr>uri = packageFolderPath @ ''/'' @ ExactLocationData.modulePath l,
                     startLine = ExactLocationData.startLine l - 1,
                     startCharacter = ExactLocationData.startColumn l - 1,
                     endLine = ExactLocationData.endLine l - 1,
                     endCharacter = ExactLocationData.endColumn l - 1\<rparr>)"
| "haskellLocationtoVscodeLocation gs _ = None"

definition haskellReferenceToVscodeLocation ::
  "GlobalState \<Rightarrow> ReferenceWithPackageId \<Rightarrow> Location option" where
  "haskellReferenceToVscodeLocation gs reference =
     (case packageIdToFolderPath gs (packageIdString reference) of
        None \<Rightarrow> None
      | Some packageFolderPath \<Rightarrow>
          if packageFolderPath = [] then None
          else
            (let span = ReferenceWithPackageId.idSrcSpan reference in
             Some \<lparr>uri = packageFolderPath @ ''/'' @ IdentifierSrcSpan.modulePath span,
                   startLine = IdentifierSrcSpan.line span - 1,
                   startCharacter = IdentifierSrcSpan.startColumn span - 1,
                   endLine = IdentifierSrcSpan.line span - 1,
                   endCharacter = IdentifierSrcSpan.endColumn span - 1\<rparr>))"

definition haskellReferencesToVscodeLocations ::
  "GlobalState \<Rightarrow> ReferenceWithPackageId list \<Rightarrow> Location list" where
  "haskellReferencesToVscodeLocations gs refs =
     foldl (\<lambda>result reference.
              case haskellReferenceToVscodeLocation gs reference of
                None \<Rightarrow> result
              | Some loc \<Rightarrow> result @ [loc])
           [] refs"

section \<open>Occurrence identifiers\<close>

text \<open>
  JavaScript numbers are IEEE doubles. The sum of two of them is the exact sum rounded to
  the nearest double, a tie going to the even significand: \<open>roundToDouble\<close> does this for
  a natural number, keeping 53 significant bits. Up to \<open>2^53\<close> every integer is a double
  and the sum is exact; \<open>2^53 + 1\<close> is the first that is not. Adding one to a double
  never overflows: the largest double plus one rounds back to itself.
\<close>

fun bitLength :: "nat \<Rightarrow> nat" where
  "bitLength n = (if n = 0 then 0 else Suc (bitLength (n div 2)))"

definition roundToDouble :: "nat \<Rightarrow> nat" where
  "roundToDouble n =
     (if n < 9007199254740992 then n
      else
        (let e = bitLength n - 53; q = n div 2 ^ e; r = n mod 2 ^ e
         in if 2 * r < 2 ^ e then q * 2 ^ e
            else if 2 ^ e < 2 * r then (q + 1) * 2 ^ e
            else (if even q then q else q + 1) * 2 ^ e))"

text \<open>\<^verbatim>\<open>x + 1\<close> on a number with a non-negative integer value.\<close>

definition plusOne :: "nat \<Rightarrow> nat" where
  "plusOne x = roundToDouble (x + 1)"

definition MAX_SAFE_INTEGER :: nat where
  "MAX_SAFE_INTEGER = 9007199254740991"

text \<open>
  The number-to-string conversion that \<^verbatim>\<open>Array.prototype.join\<close> applies to each element.
  An integer up to \<open>2^53\<close> is written with all its decimal digits; what is written above
  that is the environment's \<open>largeNumberToString\<close>.
\<close>

definition digitChar :: "nat \<Rightarrow> char" where
  "digitChar d = ''0123456789'' ! d"

fun natToString :: "nat \<Rightarrow> string" where
  "natToString n =
     (if n < 10 then [digitChar n] else natToString (n div 10) @ [digitChar (n mod 10)])"

definition numberToString :: "Env \<Rightarrow> nat \<Rightarrow> string" where
  "numberToString env x =
     (if x \<le> 9007199254740992 then natToString x else largeNumberToString env x)"

fun join :: "string \<Rightarrow> string list \<Rightarrow> string" where
  "join sep [] = []"
| "join sep [x] = x"
| "join sep (x # y # ys) = x @ sep @ join sep (y # ys)"

definition wordRangeToOccurrenceId :: "Env \<Rightarrow> Range \<Rightarrow> OccurenceId" where
  "wordRangeToOccurrenceId env wordRange =
     join ''-'' [numberToString env (plusOne (Position.line (start wordRange))),
                 numberToString env (plusOne (character (start wordRange))),
                 numberToString env (plusOne (character (end wordRange)))]"

section \<open>Module pre-fetch\<close>

definition isHaskellFile :: "TextDocument \<Rightarrow> bool" where
  "isHaskellFile document = (uriScheme document = ''file'' \<and> languageId document = ''haskell'')"

text \<open>\<^verbatim>\<open>s.indexOf(pat) !== -1\<close>: the pattern starts at some index of the string.\<close>

primrec hasSubstring :: "string \<Rightarrow> string \<Rightarrow> bool" where
  "hasSubstring pat [] = (pat = [])"
| "hasSubstring pat (c # cs) = (take (length pat) (c # cs) = pat \<or> hasSubstring pat cs)"

text \<open>
  The candidates are the packages whose folder is above the document; the array sort, by
  the length of the relative path, keeps candidates of equal length in registry order.
\<close>

definition lookupPackageInfo :: "Env \<Rightarrow> GlobalState \<Rightarrow> TextDocument \<Rightarrow> PackageInfo option" where
  "lookupPackageInfo env gs document =
     (let results =
            sort_key (\<lambda>x. length (snd x))
              (filter (\<lambda>x. \<not> hasSubstring ''../'' (snd x))
                 (map (\<lambda>p. (p, pathRelative env (packageFolder p) (uriPath document)))
                      (haskellPackages gs)))
      in case results of [] \<Rightarrow> None | x # _ \<Rightarrow> Some (fst x))"

text \<open>
  \<^verbatim>\<open>fetchModuleInfo\<close> starts \<^verbatim>\<open>fetchHaskellModule\<close> and does not await it. The model
  gives the state once that request has settled.
\<close>

definition fetchModuleInfo :: "Env \<Rightarrow> GlobalState \<Rightarrow> TextDocument \<Rightarrow> unit Eff" where
  "fetchModuleInfo env gs document =
     (case lookupPackageInfo env gs document of
        None \<Rightarrow> ((), gs, [])
      | Some packageInfo \<Rightarrow>
          (case fetchHaskellModule env gs packageInfo document of
             (_, gs', urls) \<Rightarrow> ((), gs', urls)))"

definition maybeFetchModuleInfo :: "Env \<Rightarrow> GlobalState \<Rightarrow> TextDocument \<Rightarrow> unit Eff" where
  "maybeFetchModuleInfo env gs document =
     (if \<not> isHaskellFile document then ((), gs, [])
      else if haskellModules gs (uriPath document) \<noteq> None then ((), gs, [])
      else fetchModuleInfo env gs document)"

section \<open>Go to definition\<close>

text \<open>
  The document, position and word range that \<^verbatim>\<open>provideDefinitionFromLocationInfo\<close> takes
  are used for its log lines only and are left out. A result of \<^verbatim>\<open>undefined\<close> or
  \<^verbatim>\<open>null\<close> is \<open>None\<close>: the editor treats both as no definition.
\<close>

definition provideDefinitionFromLocationInfo ::
  "Env \<Rightarrow> GlobalState \<Rightarrow> LocationInfo \<Rightarrow> Location option Eff" where
  "provideDefinitionFromLocationInfo env gs loc =
     (case loc of
        ExactLocation _ \<Rightarrow> (haskellLocationtoVscodeLocation gs loc, gs, [])
      | _ \<Rightarrow>
        (case getDefinitionSiteUri loc of
           None \<Rightarrow> (None, gs, [])
         | Some definitionSiteUri \<Rightarrow>
             if definitionSiteUri = [] then (None, gs, [])
             else
               (case definitionSites gs definitionSiteUri of
                  Some cachedDefinitionSite \<Rightarrow>
                    (case location cachedDefinitionSite of
                       ExactLocation _ \<Rightarrow>
                         (haskellLocationtoVscodeLocation gs (location cachedDefinitionSite),
                          gs, [])
                     | _ \<Rightarrow> (None, gs, []))
                | None \<Rightarrow>
                    (case fetchDefinitionSite env gs loc of
                       (None, gs', urls) \<Rightarrow> (None, gs', urls)
                     | (Some definitionSite, gs', urls) \<Rightarrow>
                         (case location definitionSite of
                            ExactLocation _ \<Rightarrow>
                              (haskellLocationtoVscodeLocation gs' (location definitionSite),
                               gs', urls)
                          | _ \<Rightarrow> (None, gs', urls))))))"

text \<open>\<^verbatim>\<open>!internalId\<close> holds for a missing field and for the empty string.\<close>

definition provideDefinition ::
  "Env \<Rightarrow> GlobalState \<Rightarrow> TextDocument \<Rightarrow> Position \<Rightarrow> Location option Eff" where
  "provideDefinition env gs document position =
     (case wordRangeAtPosition env document position of
        None \<Rightarrow> (None, gs, [])
      | Some wordRange \<Rightarrow>
          if Position.line (start wordRange) \<noteq> Position.line (end wordRange)
          then (None, gs, [])
          else
            (case haskellModules gs (uriPath document) of
               None \<Rightarrow>
                 (case fetchModuleInfo env gs document of
                    (_, gs', urls) \<Rightarrow> (None, gs', urls))
             | Some moduleInfo \<Rightarrow>
                 (case ModuleInfo.occurrences moduleInfo
                         (wordRangeToOccurrenceId env wordRange) of
                    None \<Rightarrow> (None, gs, [])
                  | Some occurrence \<Rightarrow>
                      (case IdentifierOccurrence.sort occurrence of
                         ModuleId contents \<Rightarrow> provideDefinitionFromLocationInfo env gs contents
                       | _ \<Rightarrow>
                         (case internalId occurrence of
                            None \<Rightarrow> (None, gs, [])
                          | Some iid \<Rightarrow>
                              if iid = [] then (None, gs, [])
                              else
                                (case ModuleInfo.identifiers moduleInfo iid of
                                   None \<Rightarrow> (None, gs, [])
                                 | Some identifier \<Rightarrow>
                                     if isBinder occurrence then (None, gs, [])
                                     else provideDefinitionFromLocationInfo env gs
                                            (locationInfo identifier)))))))"

text \<open>The escaping as the specification words it: each character by itself.\<close>

definition spec_escapeDot :: "char \<Rightarrow> string" where
  "spec_escapeDot c = (if c = CHR ''.'' then ''%2E'' else [c])"

definition spec_escapeEveryDot :: "string \<Rightarrow> string" where
  "spec_escapeEveryDot str = concat (map spec_escapeDot str)"

text \<open>
  The merge as the specification words it: each package contributes its references, every
  one tagged with that package's identity, source file after source file in the order of
  the server's answer, and nothing when its query fails; the merged sequence is the
  contributions of the discovered packages in discovery order.
\<close>

definition spec_tagWithPackage :: "string \<Rightarrow> ReferenceWithSource \<Rightarrow> ReferenceWithPackageId" where
  "spec_tagWithPackage pkgIdString x =
     \<lparr>packageIdString = pkgIdString,
      ReferenceWithPackageId.idSrcSpan = ReferenceWithSource.idSrcSpan x\<rparr>"

definition spec_packageContribution :: "Env \<Rightarrow> string \<Rightarrow> string \<Rightarrow> ReferenceWithPackageId list" where
  "spec_packageContribution env pkgIdString extId =
     (case getReferences env (referencesUrl env pkgIdString extId) of
        Data sourceFiles \<Rightarrow>
          concat (map (\<lambda>sourceFile. map (spec_tagWithPackage pkgIdString)
                                         (SourceFile.references sourceFile))
                      sourceFiles)
      | _ \<Rightarrow> [])"

definition spec_mergedReferences :: "Env \<Rightarrow> string list \<Rightarrow> string \<Rightarrow> ReferenceWithPackageId list" where
  "spec_mergedReferences env pkgIdStrings extId =
     concat (map (\<lambda>pkgIdString. spec_packageContribution env pkgIdString extId) pkgIdStrings)"

section \<open>A small workspace\<close>

text \<open>
  The scenario of the specification's section 8, used to run the definitions: package
  \<open>pkg-1.0\<close> checked out in \<open>/work/pkg\<close>, its module \<open>M\<close> in \<open>M.hs\<close>, and a server that
  knows the definition site of \<open>foo\<close> and the references to it in two packages. No
  number above \<open>2^53\<close> is printed in it, so its \<open>largeNumberToString\<close> is never used.
\<close>

definition examplePackageId :: PackageId where
  "examplePackageId = \<lparr>PackageId.name = ''pkg'', version = ''1.0''\<rparr>"

definition exampleApproximate :: ApproximateLocationData where
  "exampleApproximate =
     \<lparr>ApproximateLocationData.packageId = examplePackageId,
      ApproximateLocationData.moduleName = ''M'',
      entity = Val,
      ApproximateLocationData.name = ''foo'',
      haddockAnchorId = None,
      componentId = ''c1''\<rparr>"

definition exampleExact :: ExactLocationData where
  "exampleExact =
     \<lparr>ExactLocationData.packageId = examplePackageId,
      ExactLocationData.modulePath = ''M.hs'',
      ExactLocationData.moduleName = ''M'',
      ExactLocationData.startLine = 3,
      ExactLocationData.endLine = 3,
      ExactLocationData.startColumn = 1,
      ExactLocationData.endColumn = 4\<rparr>"

definition exampleSite :: DefinitionSite where
  "exampleSite = \<lparr>location = ExactLocation exampleExact, doc = None\<rparr>"

definition exampleIndirectSite :: DefinitionSite where
  "exampleIndirectSite = \<lparr>location = ApproximateLocation exampleApproximate, doc = None\<rparr>"

definition exampleSpan :: "int \<Rightarrow> IdentifierSrcSpan" where
  "exampleSpan n =
     \<lparr>IdentifierSrcSpan.modulePath = ''M.hs'',
      IdentifierSrcSpan.line = n,
      IdentifierSrcSpan.startColumn = 5,
      IdentifierSrcSpan.endColumn = 8\<rparr>"

definition exampleSourceFiles :: "SourceFile list" where
  "exampleSourceFiles =
     [\<lparr>SourceFile.name = ''M.hs'',
       SourceFile.references =
         [\<lparr>sourceCodeHtml = [], ReferenceWithSource.idSrcSpan = exampleSpan 10\<rparr>,
          \<lparr>sourceCodeHtml = [], ReferenceWithSource.idSrcSpan = exampleSpan 12\<rparr>]\<rparr>,
      \<lparr>SourceFile.name = ''N.hs'',
       SourceFile.references =
         [\<lparr>sourceCodeHtml = [], ReferenceWithSource.idSrcSpan = exampleSpan 7\<rparr>]\<rparr>]"

definition exampleMerged :: "ReferenceWithPackageId list" where
  "exampleMerged =
     [\<lparr>packageIdString = ''pkg-1.0'', ReferenceWithPackageId.idSrcSpan = exampleSpan 10\<rparr>,
      \<lparr>packageIdString = ''pkg-1.0'', ReferenceWithPackageId.idSrcSpan = exampleSpan 12\<rparr>,
      \<lparr>packageIdString = ''pkg-1.0'', ReferenceWithPackageId.idSrcSpan = exampleSpan 7\<rparr>]"

definition exampleIdentifier :: IntentifierInfo where
  "exampleIdentifier =
     \<lparr>IntentifierInfo.sort = External,
      occName = ''foo'',
      demangledOccName = ''foo'',
      locationInfo = ExactLocation exampleExact,
      idType = \<lparr>components = [Text ''Int''], componentsExpanded = None\<rparr>,
      externalId = Some ''x''\<rparr>"

definition exampleBinder :: IdentifierOccurrence where
  "exampleBinder =
     \<lparr>internalId = Some ''x1'', isBinder = True, idOccType = None,
      IdentifierOccurrence.sort = ValueId\<rparr>"

definition exampleModuleBinder :: IdentifierOccurrence where
  "exampleModuleBinder =
     \<lparr>internalId = None, isBinder = True, idOccType = None,
      IdentifierOccurrence.sort = ModuleId (ExactLocation exampleExact)\<rparr>"

definition exampleModuleResponse :: HaskellModuleResponse where
  "exampleModuleResponse =
     \<lparr>HaskellModuleResponse.identifiers = [(''x1'', exampleIdentifier)],
      HaskellModuleResponse.occurrences =
        [(''10-5-8'', exampleBinder), (''1-8-9'', exampleModuleBinder)]\<rparr>"

definition exampleModuleInfo :: ModuleInfo where
  "exampleModuleInfo =
     \<lparr>ModuleInfo.identifiers =
        mapFromObject (HaskellModuleResponse.identifiers exampleModuleResponse),
      ModuleInfo.occurrences =
        mapFromObject (HaskellModuleResponse.occurrences exampleModuleResponse)\<rparr>"

definition exampleDocument :: TextDocument where
  "exampleDocument =
     \<lparr>uriScheme = ''file'', uriPath = ''/work/pkg/M.hs'', languageId = ''haskell''\<rparr>"

definition exampleWordRange :: "Position \<Rightarrow> Range" where
  "exampleWordRange position =
     (if Position.line position = 0
      then \<lparr>start = \<lparr>Position.line = 0, character = 7\<rparr>,
            end = \<lparr>Position.line = 0, character = 8\<rparr>\<rparr>
      else \<lparr>start = \<lparr>Position.line = 9, character = 4\<rparr>,
            end = \<lparr>Position.line = 9, character = 7\<rparr>\<rparr>)"

definition exampleLineRange :: "nat \<Rightarrow> Range" where
  "exampleLineRange n =
     \<lparr>start = \<lparr>Position.line = n, character = 0\<rparr>,
      end = \<lparr>Position.line = n, character = 0\<rparr>\<rparr>"

definition exampleEnv :: Env where
  "exampleEnv =
     \<lparr>hostSetting = None,
      getModule = (\<lambda>url.
        if url = ''http://localhost:8080/files/pkg-1.0/.haskell-code-explorer/M.hs.json''
        then Data exampleModuleResponse else NotFound),
      getDefinitionSite = (\<lambda>url.
        if url = ''http://localhost:8080/api/definitionSite/pkg-1.0/c1/M/Val/foo''
        then Data exampleSite else NotFound),
      getGlobalReferences = (\<lambda>url.
        if url = ''http://localhost:8080/api/globalReferences/x''
        then Data [\<lparr>count = 3, GlobalReferences.packageId = ''pkg-1.0''\<rparr>,
                   \<lparr>count = 1, GlobalReferences.packageId = ''other-2.0''\<rparr>]
        else NotFound),
      getReferences = (\<lambda>url.
        if url = ''http://localhost:8080/api/references/pkg-1.0/x?per_page=500''
        then Data exampleSourceFiles else OtherFailure),
      encodeURIComponent = (\<lambda>s. s),
      pathRelative = (\<lambda>from to. drop (Suc (length from)) to),
      wordRangeAtPosition = (\<lambda>document position. Some (exampleWordRange position)),
      largeNumberToString = (\<lambda>x. ''1e+21'')\<rparr>"

definition exampleOfflineEnv :: Env where
  "exampleOfflineEnv = exampleEnv\<lparr>getModule := \<lambda>url. ConnectionRefused\<rparr>"

definition examplePackageInfo :: PackageInfo where
  "examplePackageInfo =
     \<lparr>PackageInfo.packageId = examplePackageId, packageFolder = ''/work/pkg''\<rparr>"

definition exampleState :: GlobalState where
  "exampleState =
     \<lparr>haskellModules = Map.empty,
      definitionSites = Map.empty,
      references = Map.empty,
      haskellPackages = [examplePackageInfo]\<rparr>"

definition exampleLoadedState :: GlobalState where
  "exampleLoadedState =
     exampleState\<lparr>haskellModules := [''/work/pkg/M.hs'' \<mapsto> exampleModuleInfo]\<rparr>"

declare natToString.simps [simp del]

declare bitLength.simps [simp del]

section \<open>Properties of the cache key\<close>

lemmas example_defs = examplePackageId_def exampleApproximate_def exampleExact_def
  exampleSite_def exampleIndirectSite_def exampleEnv_def exampleState_def
  examplePackageInfo_def

lemma replaceChar_concat:
  "replaceChar (CHR ''.'') ''%2E'' str = spec_escapeEveryDot str"
  by (induction str) (simp_all add: spec_escapeEveryDot_def spec_escapeDot_def)

lemma replaceChar_no_dot:
  "CHR ''.'' \<notin> set (replaceChar (CHR ''.'') ''%2E'' str)"
  by (induction str) simp_all

lemma fixUrlDots_no_dot: "CHR ''.'' \<notin> set (fixUrlDots str)"
  using replaceChar_no_dot [of str] by (simp add: fixUrlDots_def)

text \<open>
  Claim C4. The name \<open>''.''\<close> is escaped to the token \<open>''%20%2E''\<close> and the name
  \<open>''..''\<close> to the different token \<open>''%20%2E%2E''\<close>; every other name has each of its
  dots replaced by \<open>''%2E''\<close> and its other characters kept, so that no dot is left in
  any escaped name. The key is a function of the descriptor: two approximate locations
  with the same package, component, module, entity and name have the same key, whatever
  their haddock anchors.
\<close>

theorem fixUrlDots_escapes:
  "fixUrlDots ''.'' = ''%20%2E'' \<and>
   fixUrlDots ''..'' = ''%20%2E%2E'' \<and>
   fixUrlDots ''.'' \<noteq> fixUrlDots ''..'' \<and>
   (str \<noteq> ''.'' \<and> str \<noteq> ''..'' \<longrightarrow> fixUrlDots str = spec_escapeEveryDot str) \<and>
   CHR ''.'' \<notin> set (fixUrlDots str) \<and>
   (ApproximateLocationData.packageId a = ApproximateLocationData.packageId b \<and>
    componentId a = componentId b \<and>
    ApproximateLocationData.moduleName a = ApproximateLocationData.moduleName b \<and>
    entity a = entity b \<and>
    ApproximateLocationData.name a = ApproximateLocationData.name b \<longrightarrow>
    getDefinitionSiteUri (ApproximateLocation a) =
    getDefinitionSiteUri (ApproximateLocation b))"
proof -
  have other: "str \<noteq> ''.'' \<and> str \<noteq> ''..'' \<longrightarrow> fixUrlDots str = spec_escapeEveryDot str"
    by (simp add: fixUrlDots_def replaceChar_concat)
  have tokens: "fixUrlDots ''.'' = ''%20%2E'' \<and> fixUrlDots ''..'' = ''%20%2E%2E''"
    by (simp add: fixUrlDots_def)
  show ?thesis
    using other tokens fixUrlDots_no_dot [of str] by simp
qed

theorem fixUrlDots_escapes_witness:
  "''Data.Map'' \<noteq> ''.'' \<and> ''Data.Map'' \<noteq> ''..'' \<and>
   fixUrlDots ''Data.Map'' = ''Data%2EMap'' \<and>
   getDefinitionSiteUri (ApproximateLocation exampleApproximate) =
   getDefinitionSiteUri (ApproximateLocation (exampleApproximate\<lparr>haddockAnchorId := Some ''v:foo''\<rparr>))"
  using fixUrlDots_escapes [where str = "''Data.Map''" and a = exampleApproximate
      and b = "exampleApproximate\<lparr>haddockAnchorId := Some ''v:foo''\<rparr>"]
  by (simp add: spec_escapeEveryDot_def spec_escapeDot_def)

text \<open>
  Claim C10. The key of an approximate location is package, component, module and entity
  joined by slashes, followed by an escaped name segment; the request URL is the host, the
  definition-site prefix and that key. For the entity \<open>Mod\<close> the escaped segment is the
  location's \<open>moduleName\<close>, so the key does not depend on its \<open>name\<close> field; for every
  other entity it is the \<open>name\<close>.
\<close>

theorem module_entity_key:
  "getDefinitionSiteUri (ApproximateLocation l) =
     Some (packageIdToString (ApproximateLocationData.packageId l) @ ''/'' @ componentId l @ ''/'' @
           ApproximateLocationData.moduleName l @ ''/'' @ entityString (entity l) @ ''/'' @
           fixUrlDots (if entity l = Mod then ApproximateLocationData.moduleName l
                       else ApproximateLocationData.name l)) \<and>
   definitionSiteUrl env (ApproximateLocation l) =
     getHceHost env @ ''/api/definitionSite/'' @
     packageIdToString (ApproximateLocationData.packageId l) @ ''/'' @ componentId l @ ''/'' @
     ApproximateLocationData.moduleName l @ ''/'' @ entityString (entity l) @ ''/'' @
     fixUrlDots (if entity l = Mod then ApproximateLocationData.moduleName l
                 else ApproximateLocationData.name l) \<and>
   (entity l = Mod \<longrightarrow>
      getDefinitionSiteUri (ApproximateLocation (l\<lparr>ApproximateLocationData.name := n\<rparr>)) =
      getDefinitionSiteUri (ApproximateLocation l))"
  by (simp add: definitionSiteUrl_def API_URL_PREFIX_def Let_def)

theorem module_entity_key_witness:
  "entity (exampleApproximate\<lparr>entity := Mod, ApproximateLocationData.moduleName := ''Data.Map''\<rparr>) = Mod \<and>
   getDefinitionSiteUri (ApproximateLocation
     (exampleApproximate\<lparr>entity := Mod, ApproximateLocationData.moduleName := ''Data.Map''\<rparr>)) =
     Some ''pkg-1.0/c1/Data.Map/Mod/Data%2EMap'' \<and>
   getDefinitionSiteUri (ApproximateLocation
     (exampleApproximate\<lparr>entity := Mod, ApproximateLocationData.moduleName := ''Data.Map'',
        ApproximateLocationData.name := ''bar''\<rparr>)) =
     Some ''pkg-1.0/c1/Data.Map/Mod/Data%2EMap''"
  using module_entity_key [where l = "exampleApproximate\<lparr>entity := Mod, ApproximateLocationData.moduleName := ''Data.Map''\<rparr>"
               and n = "''bar''" and env = exampleEnv]
  by (simp add: example_defs packageIdToString_def fixUrlDots_def)

section \<open>Fetching: basic facts\<close>

lemma getDefinitionSiteUri_nonempty:
  "getDefinitionSiteUri loc = Some k \<Longrightarrow> k \<noteq> []"
  by (cases loc) (auto simp: Let_def)

lemma fetch_Data: "axiosGet url = Data d \<Longrightarrow> fetch axiosGet url = (Some d, [url])"
  by (simp add: fetch_def)

lemma fetch_not_Data: "\<not> is_Data (axiosGet url) \<Longrightarrow> fetch axiosGet url = (None, [url])"
  by (cases "axiosGet url") (simp_all add: fetch_def)

lemma fetch_urls: "snd (fetch axiosGet url) = [url]"
  by (cases "axiosGet url") (simp_all add: fetch_def)

lemma fetchDefinitionSite_approx:
  assumes "getDefinitionSiteUri (ApproximateLocation l) = Some k"
  shows "fetchDefinitionSite env gs (ApproximateLocation l) =
     (case getDefinitionSite env (definitionSiteUrl env (ApproximateLocation l)) of
        Data ds \<Rightarrow> (Some ds, gs\<lparr>definitionSites := (definitionSites gs)(k \<mapsto> ds)\<rparr>,
                    [definitionSiteUrl env (ApproximateLocation l)])
      | _ \<Rightarrow> (None, gs, [definitionSiteUrl env (ApproximateLocation l)]))"
  using assms getDefinitionSiteUri_nonempty [OF assms]
  by (cases "getDefinitionSite env (definitionSiteUrl env (ApproximateLocation l))")
     (simp_all add: fetchDefinitionSite_def fetch_def)

lemma packageIdToFolderPath_definitionSites:
  "packageIdToFolderPath (gs\<lparr>definitionSites := m\<rparr>) s = packageIdToFolderPath gs s"
  by (simp add: packageIdToFolderPath_def)

section \<open>Properties of definition resolution\<close>

text \<open>
  Claim C5. Resolving an \<open>UnknownLocation\<close> returns no location, passes no URL to the
  server and leaves the state as it was. Such a location has no definition-site key, and
  the definition-site fetch itself does nothing when handed one.
\<close>

theorem unknown_location_absent:
  "provideDefinitionFromLocationInfo env gs UnknownLocation = (None, gs, []) \<and>
   getDefinitionSiteUri UnknownLocation = None \<and>
   fetchDefinitionSite env gs UnknownLocation = (None, gs, [])"
  by (simp add: provideDefinitionFromLocationInfo_def fetchDefinitionSite_def)

theorem unknown_location_absent_witness:
  "provideDefinitionFromLocationInfo exampleEnv exampleState UnknownLocation =
     (None, exampleState, [])"
  using unknown_location_absent [of exampleEnv exampleState] by simp

text \<open>
  Claim C1. An \<open>ExactLocation\<close> is translated from the registry with no request. For an
  \<open>ApproximateLocation\<close> with key \<open>k\<close>: when the definition-site cache holds \<open>k\<close> the
  cached site is used and no request is made; when it does not, exactly one request is
  made, to the definition-site URL of that location. When the fetched site's own location
  is not an \<open>ExactLocation\<close> (another approximate location included) the result is
  absent, the site is cached and that one request stays the only one; when it is an
  \<open>ExactLocation\<close> that location is translated; when the request fails the result is
  absent and nothing is cached. No resolution makes more than one request.
\<close>

theorem definition_resolution_one_hop:
  "provideDefinitionFromLocationInfo env gs (ExactLocation e) =
     (haskellLocationtoVscodeLocation gs (ExactLocation e), gs, []) \<and>
   (getDefinitionSiteUri (ApproximateLocation l) = Some k \<and> definitionSites gs k = Some c \<longrightarrow>
      provideDefinitionFromLocationInfo env gs (ApproximateLocation l) =
        (haskellLocationtoVscodeLocation gs (location c), gs, [])) \<and>
   (getDefinitionSiteUri (ApproximateLocation l) = Some k \<and> definitionSites gs k = None \<longrightarrow>
      snd (snd (provideDefinitionFromLocationInfo env gs (ApproximateLocation l))) =
        [definitionSiteUrl env (ApproximateLocation l)]) \<and>
   (getDefinitionSiteUri (ApproximateLocation l) = Some k \<and> definitionSites gs k = None \<and>
    getDefinitionSite env (definitionSiteUrl env (ApproximateLocation l)) = Data ds \<and>
    (\<forall>e'. location ds \<noteq> ExactLocation e') \<longrightarrow>
      provideDefinitionFromLocationInfo env gs (ApproximateLocation l) =
        (None, gs\<lparr>definitionSites := (definitionSites gs)(k \<mapsto> ds)\<rparr>,
         [definitionSiteUrl env (ApproximateLocation l)])) \<and>
   (getDefinitionSiteUri (ApproximateLocation l) = Some k \<and> definitionSites gs k = None \<and>
    getDefinitionSite env (definitionSiteUrl env (ApproximateLocation l)) = Data ds \<and>
    location ds = ExactLocation e \<longrightarrow>
      provideDefinitionFromLocationInfo env gs (ApproximateLocation l) =
        (haskellLocationtoVscodeLocation gs (ExactLocation e),
         gs\<lparr>definitionSites := (definitionSites gs)(k \<mapsto> ds)\<rparr>,
         [definitionSiteUrl env (ApproximateLocation l)])) \<and>
   (getDefinitionSiteUri (ApproximateLocation l) = Some k \<and> definitionSites gs k = None \<and>
    \<not> is_Data (getDefinitionSite env (definitionSiteUrl env (ApproximateLocation l))) \<longrightarrow>
      provideDefinitionFromLocationInfo env gs (ApproximateLocation l) =
        (None, gs, [definitionSiteUrl env (ApproximateLocation l)])) \<and>
   length (snd (snd (provideDefinitionFromLocationInfo env gs loc))) \<le> 1"
proof -
  have exact: "provideDefinitionFromLocationInfo env gs (ExactLocation e) =
      (haskellLocationtoVscodeLocation gs (ExactLocation e), gs, [])"
    by (simp add: provideDefinitionFromLocationInfo_def)
  have warm: "provideDefinitionFromLocationInfo env gs (ApproximateLocation l) =
      (haskellLocationtoVscodeLocation gs (location c), gs, [])"
    if "getDefinitionSiteUri (ApproximateLocation l) = Some k" "definitionSites gs k = Some c"
    using that getDefinitionSiteUri_nonempty [OF that(1)]
    by (cases "location c") (simp_all add: provideDefinitionFromLocationInfo_def)
  have cold: "provideDefinitionFromLocationInfo env gs (ApproximateLocation l) =
      (case getDefinitionSite env (definitionSiteUrl env (ApproximateLocation l)) of
         Data ds \<Rightarrow>
           (haskellLocationtoVscodeLocation
              (gs\<lparr>definitionSites := (definitionSites gs)(k \<mapsto> ds)\<rparr>) (location ds),
            gs\<lparr>definitionSites := (definitionSites gs)(k \<mapsto> ds)\<rparr>,
            [definitionSiteUrl env (ApproximateLocation l)])
       | _ \<Rightarrow> (None, gs, [definitionSiteUrl env (ApproximateLocation l)]))"
    if "getDefinitionSiteUri (ApproximateLocation l) = Some k" "definitionSites gs k = None"
    for l k
    using that getDefinitionSiteUri_nonempty [OF that(1)]
    by (simp add: provideDefinitionFromLocationInfo_def fetchDefinitionSite_approx [OF that(1)]
          split: Response.splits LocationInfo.splits)
  have cold_urls: "snd (snd (provideDefinitionFromLocationInfo env gs (ApproximateLocation l))) =
      [definitionSiteUrl env (ApproximateLocation l)]"
    if "getDefinitionSiteUri (ApproximateLocation l) = Some k" "definitionSites gs k = None"
    for l k
    by (simp add: cold [OF that] split: Response.splits)
  have second: "provideDefinitionFromLocationInfo env gs (ApproximateLocation l) =
        (None, gs\<lparr>definitionSites := (definitionSites gs)(k \<mapsto> ds)\<rparr>,
         [definitionSiteUrl env (ApproximateLocation l)])"
    if "getDefinitionSiteUri (ApproximateLocation l) = Some k" "definitionSites gs k = None"
       "getDefinitionSite env (definitionSiteUrl env (ApproximateLocation l)) = Data ds"
       "\<forall>e'. location ds \<noteq> ExactLocation e'"
    using that(3,4) by (cases "location ds") (simp_all add: cold [OF that(1,2)])
  have resolved: "provideDefinitionFromLocationInfo env gs (ApproximateLocation l) =
        (haskellLocationtoVscodeLocation gs (ExactLocation e),
         gs\<lparr>definitionSites := (definitionSites gs)(k \<mapsto> ds)\<rparr>,
         [definitionSiteUrl env (ApproximateLocation l)])"
    if "getDefinitionSiteUri (ApproximateLocation l) = Some k" "definitionSites gs k = None"
       "getDefinitionSite env (definitionSiteUrl env (ApproximateLocation l)) = Data ds"
       "location ds = ExactLocation e"
    using that(3,4)
    by (simp add: cold [OF that(1,2)] packageIdToFolderPath_definitionSites)
  have failed: "provideDefinitionFromLocationInfo env gs (ApproximateLocation l) =
        (None, gs, [definitionSiteUrl env (ApproximateLocation l)])"
    if "getDefinitionSiteUri (ApproximateLocation l) = Some k" "definitionSites gs k = None"
       "\<not> is_Data (getDefinitionSite env (definitionSiteUrl env (ApproximateLocation l)))"
    using that(3)
    by (cases "getDefinitionSite env (definitionSiteUrl env (ApproximateLocation l))")
       (simp_all add: cold [OF that(1,2)])
  have bound: "length (snd (snd (provideDefinitionFromLocationInfo env gs loc))) \<le> 1"
  proof (cases loc)
    case (ExactLocation e0)
    then show ?thesis by (simp add: provideDefinitionFromLocationInfo_def)
  next
    case (ApproximateLocation l0)
    obtain k0 where k0: "getDefinitionSiteUri (ApproximateLocation l0) = Some k0"
      by (simp add: Let_def)
    show ?thesis
    proof (cases "definitionSites gs k0")
      case None
      then show ?thesis using cold_urls [OF k0 None] ApproximateLocation by simp
    next
      case (Some c0)
      then show ?thesis
        using k0 getDefinitionSiteUri_nonempty [OF k0] ApproximateLocation
        by (cases "location c0") (simp_all add: provideDefinitionFromLocationInfo_def)
    qed
  next
    case UnknownLocation
    then show ?thesis by (simp add: provideDefinitionFromLocationInfo_def)
  qed
  show ?thesis
    using exact warm cold_urls second resolved failed bound by blast
qed

theorem definition_resolution_one_hop_witness:
  "getDefinitionSiteUri (ApproximateLocation exampleApproximate) = Some ''pkg-1.0/c1/M/Val/foo'' \<and>
   definitionSites exampleState ''pkg-1.0/c1/M/Val/foo'' = None \<and>
   snd (snd (provideDefinitionFromLocationInfo exampleEnv exampleState
               (ApproximateLocation exampleApproximate))) =
     [''http://localhost:8080/api/definitionSite/pkg-1.0/c1/M/Val/foo''] \<and>
   getDefinitionSite exampleEnv
     ''http://localhost:8080/api/definitionSite/pkg-1.0/c1/M/Val/foo'' = Data exampleSite \<and>
   location exampleSite = ExactLocation exampleExact \<and>
   provideDefinitionFromLocationInfo exampleEnv exampleState
     (ApproximateLocation exampleApproximate) =
     (Some \<lparr>uri = ''/work/pkg/M.hs'', startLine = 2, startCharacter = 0,
             endLine = 2, endCharacter = 3\<rparr>,
      exampleState\<lparr>definitionSites := [''pkg-1.0/c1/M/Val/foo'' \<mapsto> exampleSite]\<rparr>,
      [''http://localhost:8080/api/definitionSite/pkg-1.0/c1/M/Val/foo'']) \<and>
   definitionSites
     (exampleState\<lparr>definitionSites := [''pkg-1.0/c1/M/Val/foo'' \<mapsto> exampleSite]\<rparr>)
     ''pkg-1.0/c1/M/Val/foo'' = Some exampleSite \<and>
   provideDefinitionFromLocationInfo exampleEnv
     (exampleState\<lparr>definitionSites := [''pkg-1.0/c1/M/Val/foo'' \<mapsto> exampleSite]\<rparr>)
     (ApproximateLocation exampleApproximate) =
     (Some \<lparr>uri = ''/work/pkg/M.hs'', startLine = 2, startCharacter = 0,
             endLine = 2, endCharacter = 3\<rparr>,
      exampleState\<lparr>definitionSites := [''pkg-1.0/c1/M/Val/foo'' \<mapsto> exampleSite]\<rparr>, []) \<and>
   getDefinitionSite (exampleEnv\<lparr>getDefinitionSite := \<lambda>url. Data exampleIndirectSite\<rparr>)
     ''http://localhost:8080/api/definitionSite/pkg-1.0/c1/M/Val/foo'' = Data exampleIndirectSite \<and>
   (\<forall>e'. location exampleIndirectSite \<noteq> ExactLocation e') \<and>
   provideDefinitionFromLocationInfo
     (exampleEnv\<lparr>getDefinitionSite := \<lambda>url. Data exampleIndirectSite\<rparr>) exampleState
     (ApproximateLocation exampleApproximate) =
     (None,
      exampleState\<lparr>definitionSites := [''pkg-1.0/c1/M/Val/foo'' \<mapsto> exampleIndirectSite]\<rparr>,
      [''http://localhost:8080/api/definitionSite/pkg-1.0/c1/M/Val/foo''])"
  using
    definition_resolution_one_hop
      [where env = exampleEnv and gs = exampleState and l = exampleApproximate
         and k = "''pkg-1.0/c1/M/Val/foo''" and ds = exampleSite and e = exampleExact]
    definition_resolution_one_hop
      [where env = exampleEnv
         and gs = "exampleState\<lparr>definitionSites :=
                     [''pkg-1.0/c1/M/Val/foo'' \<mapsto> exampleSite]\<rparr>"
         and l = exampleApproximate and k = "''pkg-1.0/c1/M/Val/foo''" and c = exampleSite]
    definition_resolution_one_hop
      [where env = "exampleEnv\<lparr>getDefinitionSite := \<lambda>url. Data exampleIndirectSite\<rparr>"
         and gs = exampleState and ds = exampleIndirectSite
         and l = exampleApproximate and k = "''pkg-1.0/c1/M/Val/foo''"]
  by (simp add: example_defs packageIdToString_def fixUrlDots_def definitionSiteUrl_def
        getHceHost_def DEFAULT_HCE_HOST_def API_URL_PREFIX_def packageIdToFolderPath_def)

section \<open>Properties of occurrence identifiers\<close>

lemma digitChar_inj: "a < 10 \<Longrightarrow> b < 10 \<Longrightarrow> digitChar a = digitChar b \<Longrightarrow> a = b"
  unfolding digitChar_def
  by (subst (asm) nth_eq_iff_index_eq) simp_all

lemma digitChar_not_minus: "d < 10 \<Longrightarrow> digitChar d \<noteq> CHR ''-''"
proof -
  assume "d < 10"
  then have "digitChar d \<in> set ''0123456789''"
    unfolding digitChar_def by (intro nth_mem) simp
  then show ?thesis by auto
qed

lemma natToString_nonempty: "natToString n \<noteq> []"
  by (subst natToString.simps) simp

lemma natToString_no_minus: "CHR ''-'' \<notin> set (natToString n)"
proof (induction n rule: natToString.induct)
  case (1 n)
  show ?case
  proof (cases "n < 10")
    case True
    then show ?thesis
      using digitChar_not_minus [of n] by (subst natToString.simps) auto
  next
    case False
    then show ?thesis
      using 1 digitChar_not_minus [of "n mod 10"] by (subst natToString.simps) auto
  qed
qed

lemma natToString_inj: "natToString a = natToString b \<Longrightarrow> a = b"
proof (induction a arbitrary: b rule: natToString.induct)
  case (1 n)
  show ?case
  proof (cases "n < 10")
    case small: True
    show ?thesis
    proof (cases "b < 10")
      case True
      then show ?thesis
        using 1(2) small digitChar_inj [of n b]
        by (simp add: natToString.simps [of n] natToString.simps [of b])
    next
      case False
      then show ?thesis
        using 1(2) small natToString_nonempty [of "b div 10"]
        by (simp add: natToString.simps [of n] natToString.simps [of b])
    qed
  next
    case big: False
    show ?thesis
    proof (cases "b < 10")
      case True
      then show ?thesis
        using 1(2) big natToString_nonempty [of "n div 10"]
        by (simp add: natToString.simps [of n] natToString.simps [of b])
    next
      case False
      then have "natToString (n div 10) = natToString (b div 10)"
        and d: "digitChar (n mod 10) = digitChar (b mod 10)"
        using 1(2) big by (simp_all add: natToString.simps [of n] natToString.simps [of b])
      then have "n div 10 = b div 10" using 1(1) big by simp
      moreover have "n mod 10 = b mod 10" using d digitChar_inj by simp
      ultimately show ?thesis by (metis div_mult_mod_eq)
    qed
  qed
qed

lemma split_at_separator:
  "c \<notin> set a \<Longrightarrow> c \<notin> set a' \<Longrightarrow> a @ c # r = a' @ c # r' \<Longrightarrow> a = a' \<and> r = r'"
proof (induction a arbitrary: a')
  case Nil
  then show ?case by (cases a') auto
next
  case (Cons x xs)
  then show ?case by (cases a') auto
qed

lemma roundToDouble_two_to_53:
  "roundToDouble 9007199254740992 = 9007199254740992"
  "roundToDouble 9007199254740993 = 9007199254740992"
  by (simp_all add: roundToDouble_def bitLength.simps Let_def)

lemma plusOne_exact:
  assumes "x \<le> MAX_SAFE_INTEGER"
  shows "plusOne x = x + 1" and "x + 1 \<le> 9007199254740992"
proof -
  show le: "x + 1 \<le> 9007199254740992"
    using assms by (simp add: MAX_SAFE_INTEGER_def)
  show "plusOne x = x + 1"
  proof (cases "x + 1 < 9007199254740992")
    case True
    then show ?thesis by (simp add: plusOne_def roundToDouble_def)
  next
    case False
    then have "x + 1 = 9007199254740992" using le by simp
    then show ?thesis using roundToDouble_two_to_53(1) by (simp add: plusOne_def)
  qed
qed

lemma numberToString_plusOne:
  "x \<le> MAX_SAFE_INTEGER \<Longrightarrow> numberToString env (plusOne x) = natToString (x + 1)"
  using plusOne_exact [of x] by (simp add: numberToString_def)

text \<open>
  Claim C6, amended. For word ranges whose start line, start column and end column are at
  most \<open>2^53 - 1\<close>, the largest integer to which a JavaScript number adds one exactly: the
  occurrence identifier is the decimal numerals of the three coordinates, each incremented
  by one, joined by \<open>-\<close>; and two such ranges have the same identifier exactly when their
  three 1-based coordinates agree. The derivation is a function of the triple and is
  injective on triples in that range.
\<close>

theorem occurrence_id_injective:
  "(Position.line (start r1) \<le> MAX_SAFE_INTEGER \<and>
    character (start r1) \<le> MAX_SAFE_INTEGER \<and>
    character (end r1) \<le> MAX_SAFE_INTEGER \<longrightarrow>
      wordRangeToOccurrenceId env r1 =
        natToString (Position.line (start r1) + 1) @ ''-'' @
        natToString (character (start r1) + 1) @ ''-'' @
        natToString (character (end r1) + 1)) \<and>
   (Position.line (start r1) \<le> MAX_SAFE_INTEGER \<and>
    character (start r1) \<le> MAX_SAFE_INTEGER \<and>
    character (end r1) \<le> MAX_SAFE_INTEGER \<and>
    Position.line (start r2) \<le> MAX_SAFE_INTEGER \<and>
    character (start r2) \<le> MAX_SAFE_INTEGER \<and>
    character (end r2) \<le> MAX_SAFE_INTEGER \<longrightarrow>
      (wordRangeToOccurrenceId env r1 = wordRangeToOccurrenceId env r2 \<longleftrightarrow>
         Position.line (start r1) + 1 = Position.line (start r2) + 1 \<and>
         character (start r1) + 1 = character (start r2) + 1 \<and>
         character (end r1) + 1 = character (end r2) + 1))"
proof -
  have fmt: "wordRangeToOccurrenceId env r =
     natToString (Position.line (start r) + 1) @ ''-'' @
     natToString (character (start r) + 1) @ ''-'' @
     natToString (character (end r) + 1)"
    if "Position.line (start r) \<le> MAX_SAFE_INTEGER"
       "character (start r) \<le> MAX_SAFE_INTEGER"
       "character (end r) \<le> MAX_SAFE_INTEGER" for r
    using that by (simp add: wordRangeToOccurrenceId_def numberToString_plusOne)
  have inj: "Position.line (start r1) + 1 = Position.line (start r2) + 1 \<and>
      character (start r1) + 1 = character (start r2) + 1 \<and>
      character (end r1) + 1 = character (end r2) + 1"
    if eq: "natToString (Position.line (start r1) + 1) @ ''-'' @
            natToString (character (start r1) + 1) @ ''-'' @
            natToString (character (end r1) + 1) =
            natToString (Position.line (start r2) + 1) @ ''-'' @
            natToString (character (start r2) + 1) @ ''-'' @
            natToString (character (end r2) + 1)"
  proof -
    from eq have e1: "natToString (Position.line (start r1) + 1) @ CHR ''-'' #
        (natToString (character (start r1) + 1) @ CHR ''-'' #
         natToString (character (end r1) + 1)) =
        natToString (Position.line (start r2) + 1) @ CHR ''-'' #
        (natToString (character (start r2) + 1) @ CHR ''-'' #
         natToString (character (end r2) + 1))"
      by simp
    from split_at_separator [OF natToString_no_minus natToString_no_minus e1]
    have l: "natToString (Position.line (start r1) + 1) =
        natToString (Position.line (start r2) + 1)"
      and e2: "natToString (character (start r1) + 1) @ CHR ''-'' #
        natToString (character (end r1) + 1) =
        natToString (character (start r2) + 1) @ CHR ''-'' #
        natToString (character (end r2) + 1)"
      by simp_all
    from split_at_separator [OF natToString_no_minus natToString_no_minus e2]
    have s: "natToString (character (start r1) + 1) = natToString (character (start r2) + 1)"
      and e: "natToString (character (end r1) + 1) = natToString (character (end r2) + 1)"
      by simp_all
    show ?thesis
      using natToString_inj [OF l] natToString_inj [OF s] natToString_inj [OF e] by simp
  qed
  have iff: "wordRangeToOccurrenceId env r1 = wordRangeToOccurrenceId env r2 \<longleftrightarrow>
         Position.line (start r1) + 1 = Position.line (start r2) + 1 \<and>
         character (start r1) + 1 = character (start r2) + 1 \<and>
         character (end r1) + 1 = character (end r2) + 1"
    if "Position.line (start r1) \<le> MAX_SAFE_INTEGER"
       "character (start r1) \<le> MAX_SAFE_INTEGER"
       "character (end r1) \<le> MAX_SAFE_INTEGER"
       "Position.line (start r2) \<le> MAX_SAFE_INTEGER"
       "character (start r2) \<le> MAX_SAFE_INTEGER"
       "character (end r2) \<le> MAX_SAFE_INTEGER"
  proof
    assume "wordRangeToOccurrenceId env r1 = wordRangeToOccurrenceId env r2"
    then show "Position.line (start r1) + 1 = Position.line (start r2) + 1 \<and>
         character (start r1) + 1 = character (start r2) + 1 \<and>
         character (end r1) + 1 = character (end r2) + 1"
      using inj fmt [OF that(1,2,3)] fmt [OF that(4,5,6)] by simp
  next
    assume "Position.line (start r1) + 1 = Position.line (start r2) + 1 \<and>
         character (start r1) + 1 = character (start r2) + 1 \<and>
         character (end r1) + 1 = character (end r2) + 1"
    then show "wordRangeToOccurrenceId env r1 = wordRangeToOccurrenceId env r2"
      using fmt [OF that(1,2,3)] fmt [OF that(4,5,6)] by simp
  qed
  show ?thesis using fmt [of r1] iff by blast
qed

text \<open>
  Claim C6 as stated, for any two triples of natural numbers, fails past that range: the
  start lines \<open>2^53 - 1\<close> and \<open>2^53\<close> are different, and both ranges get the identifier
  \<open>9007199254740992-1-1\<close>, because \<open>2^53 + 1\<close> is not a double and the sum rounds to
  \<open>2^53\<close>.
\<close>

theorem occurrence_id_collision:
  "Position.line (start (exampleLineRange 9007199254740991)) \<noteq>
     Position.line (start (exampleLineRange 9007199254740992)) \<and>
   wordRangeToOccurrenceId exampleEnv (exampleLineRange 9007199254740991) =
     ''9007199254740992-1-1'' \<and>
   wordRangeToOccurrenceId exampleEnv (exampleLineRange 9007199254740992) =
     ''9007199254740992-1-1'' \<and>
   wordRangeToOccurrenceId exampleEnv (exampleLineRange 9007199254740991) =
     wordRangeToOccurrenceId exampleEnv (exampleLineRange 9007199254740992)"
proof -
  have sums: "plusOne 9007199254740991 = 9007199254740992"
    "plusOne 9007199254740992 = 9007199254740992" "plusOne 0 = 1"
    using roundToDouble_two_to_53 by (simp_all add: plusOne_def roundToDouble_def)
  have digits: "natToString 9007199254740992 = ''9007199254740992''"
    "natToString (Suc 0) = ''1''"
    by (simp_all add: natToString.simps digitChar_def)
  show ?thesis
    by (simp add: wordRangeToOccurrenceId_def exampleLineRange_def sums numberToString_def
          digits)
qed

theorem occurrence_id_injective_witness:
  "Position.line (start (exampleWordRange \<lparr>Position.line = 9, character = 5\<rparr>)) \<le>
     MAX_SAFE_INTEGER \<and>
   wordRangeToOccurrenceId exampleEnv
     (exampleWordRange \<lparr>Position.line = 9, character = 5\<rparr>) = ''10-5-8'' \<and>
   wordRangeToOccurrenceId exampleEnv
     (exampleWordRange \<lparr>Position.line = 0, character = 7\<rparr>) = ''1-8-9'' \<and>
   wordRangeToOccurrenceId exampleEnv
     (exampleWordRange \<lparr>Position.line = 9, character = 5\<rparr>) \<noteq>
   wordRangeToOccurrenceId exampleEnv
     (exampleWordRange \<lparr>Position.line = 0, character = 7\<rparr>) \<and>
   Position.line (start (exampleLineRange 9007199254740991)) \<le> MAX_SAFE_INTEGER \<and>
   wordRangeToOccurrenceId exampleEnv (exampleLineRange 9007199254740991) \<noteq>
   wordRangeToOccurrenceId exampleEnv (exampleLineRange 9007199254740990)"
  using
    occurrence_id_injective
      [of "exampleWordRange \<lparr>Position.line = 9, character = 5\<rparr>" exampleEnv
          "exampleWordRange \<lparr>Position.line = 0, character = 7\<rparr>"]
    occurrence_id_injective
      [of "exampleWordRange \<lparr>Position.line = 0, character = 7\<rparr>" exampleEnv
          "exampleWordRange \<lparr>Position.line = 0, character = 7\<rparr>"]
    occurrence_id_injective
      [of "exampleLineRange 9007199254740991" exampleEnv
          "exampleLineRange 9007199254740990"]
  by (auto simp: exampleWordRange_def exampleLineRange_def MAX_SAFE_INTEGER_def
        natToString.simps digitChar_def)

section \<open>Properties of location translation\<close>





section \<open>Properties of the module cache\<close>

lemma lookupPackageInfo_getModule:
  "lookupPackageInfo (env\<lparr>getModule := g\<rparr>) gs d = lookupPackageInfo env gs d"
  by (simp add: lookupPackageInfo_def)

lemma haskellModuleUrl_getModule:
  "haskellModuleUrl (env\<lparr>getModule := g\<rparr>) p d = haskellModuleUrl env p d"
  by (simp add: haskellModuleUrl_def getHceHost_def)

lemma fetchHaskellModule_Data:
  "getModule env (haskellModuleUrl env p d) = Data resp \<Longrightarrow>
   fetchHaskellModule env gs p d =
     (Some \<lparr>ModuleInfo.identifiers = mapFromObject (HaskellModuleResponse.identifiers resp),
            ModuleInfo.occurrences = mapFromObject (HaskellModuleResponse.occurrences resp)\<rparr>,
      gs\<lparr>haskellModules := (haskellModules gs)(uriPath d \<mapsto>
           \<lparr>ModuleInfo.identifiers = mapFromObject (HaskellModuleResponse.identifiers resp),
            ModuleInfo.occurrences = mapFromObject (HaskellModuleResponse.occurrences resp)\<rparr>)\<rparr>,
      [haskellModuleUrl env p d])"
  by (simp add: fetchHaskellModule_def fetch_Data Let_def)

lemma fetchHaskellModule_failure:
  "\<not> is_Data (getModule env (haskellModuleUrl env p d)) \<Longrightarrow>
   fetchHaskellModule env gs p d = (None, gs, [haskellModuleUrl env p d])"
  by (simp add: fetchHaskellModule_def fetch_not_Data Let_def)

text \<open>
  Claim C9. When the server answers the module request with a body, the parsed module is
  stored in the module cache under the document's path and returned. When the request
  fails in any way, the result is absent and the state is unchanged; so a document that
  was not cached is still not cached, and the next pre-fetch of it requests the same URL
  again, whatever the server answers then.
\<close>

theorem module_fetch_caches_success_only:
  "(getModule env (haskellModuleUrl env p d) = Data resp \<longrightarrow>
      fetchHaskellModule env gs p d =
        (Some \<lparr>ModuleInfo.identifiers = mapFromObject (HaskellModuleResponse.identifiers resp),
               ModuleInfo.occurrences = mapFromObject (HaskellModuleResponse.occurrences resp)\<rparr>,
         gs\<lparr>haskellModules := (haskellModules gs)(uriPath d \<mapsto>
              \<lparr>ModuleInfo.identifiers = mapFromObject (HaskellModuleResponse.identifiers resp),
               ModuleInfo.occurrences = mapFromObject (HaskellModuleResponse.occurrences resp)\<rparr>)\<rparr>,
         [haskellModuleUrl env p d])) \<and>
   (\<not> is_Data (getModule env (haskellModuleUrl env p d)) \<longrightarrow>
      fetchHaskellModule env gs p d = (None, gs, [haskellModuleUrl env p d])) \<and>
   (\<not> is_Data (getModule env (haskellModuleUrl env p d)) \<and>
    isHaskellFile d \<and> haskellModules gs (uriPath d) = None \<and>
    lookupPackageInfo env gs d = Some p \<longrightarrow>
      maybeFetchModuleInfo env gs d = ((), gs, [haskellModuleUrl env p d]) \<and>
      snd (snd (maybeFetchModuleInfo (env\<lparr>getModule := later\<rparr>)
                  (fst (snd (maybeFetchModuleInfo env gs d))) d)) =
        [haskellModuleUrl env p d])"
proof -
  have again: "snd (snd (fetchHaskellModule (env\<lparr>getModule := later\<rparr>) gs p d)) =
      [haskellModuleUrl env p d]"
    by (cases "later (haskellModuleUrl env p d)")
       (simp_all add: fetchHaskellModule_def fetch_def haskellModuleUrl_getModule Let_def)
  have retry: "maybeFetchModuleInfo env gs d = ((), gs, [haskellModuleUrl env p d]) \<and>
      snd (snd (maybeFetchModuleInfo (env\<lparr>getModule := later\<rparr>)
                  (fst (snd (maybeFetchModuleInfo env gs d))) d)) =
        [haskellModuleUrl env p d]"
    if "\<not> is_Data (getModule env (haskellModuleUrl env p d))" "isHaskellFile d"
       "haskellModules gs (uriPath d) = None" "lookupPackageInfo env gs d = Some p"
  proof -
    have first: "maybeFetchModuleInfo env gs d = ((), gs, [haskellModuleUrl env p d])"
      using that by (simp add: maybeFetchModuleInfo_def fetchModuleInfo_def
          fetchHaskellModule_failure)
    have "maybeFetchModuleInfo (env\<lparr>getModule := later\<rparr>) gs d =
        (case fetchHaskellModule (env\<lparr>getModule := later\<rparr>) gs p d of
           (_, gs', urls) \<Rightarrow> ((), gs', urls))"
      using that by (simp add: maybeFetchModuleInfo_def fetchModuleInfo_def
          lookupPackageInfo_getModule)
    then show ?thesis using first again by (simp add: split_beta)
  qed
  show ?thesis
    using fetchHaskellModule_Data [of env p d resp gs] fetchHaskellModule_failure [of env p d gs]
      retry by blast
qed

theorem module_fetch_caches_success_only_witness:
  "getModule exampleEnv (haskellModuleUrl exampleEnv examplePackageInfo exampleDocument) =
     Data exampleModuleResponse \<and>
   fetchHaskellModule exampleEnv exampleState examplePackageInfo exampleDocument =
     (Some exampleModuleInfo, exampleLoadedState,
      [''http://localhost:8080/files/pkg-1.0/.haskell-code-explorer/M.hs.json'']) \<and>
   \<not> is_Data (getModule exampleOfflineEnv
                (haskellModuleUrl exampleOfflineEnv examplePackageInfo exampleDocument)) \<and>
   isHaskellFile exampleDocument \<and>
   haskellModules exampleState (uriPath exampleDocument) = None \<and>
   lookupPackageInfo exampleOfflineEnv exampleState exampleDocument = Some examplePackageInfo \<and>
   fetchHaskellModule exampleOfflineEnv exampleState examplePackageInfo exampleDocument =
     (None, exampleState,
      [''http://localhost:8080/files/pkg-1.0/.haskell-code-explorer/M.hs.json'']) \<and>
   maybeFetchModuleInfo exampleOfflineEnv exampleState exampleDocument =
     ((), exampleState,
      [''http://localhost:8080/files/pkg-1.0/.haskell-code-explorer/M.hs.json'']) \<and>
   snd (snd (maybeFetchModuleInfo exampleEnv
     (fst (snd (maybeFetchModuleInfo exampleOfflineEnv exampleState exampleDocument)))
     exampleDocument)) =
     [''http://localhost:8080/files/pkg-1.0/.haskell-code-explorer/M.hs.json'']"
proof -
  have url: "haskellModuleUrl exampleEnv examplePackageInfo exampleDocument =
      ''http://localhost:8080/files/pkg-1.0/.haskell-code-explorer/M.hs.json''"
    "haskellModuleUrl exampleOfflineEnv examplePackageInfo exampleDocument =
      ''http://localhost:8080/files/pkg-1.0/.haskell-code-explorer/M.hs.json''"
    by (simp_all add: haskellModuleUrl_def getHceHost_def DEFAULT_HCE_HOST_def
          STATIC_URL_PREFIX_def HCE_INDEX_DIRECTORY_def packageIdToString_def
          exampleOfflineEnv_def exampleEnv_def examplePackageInfo_def examplePackageId_def
          exampleDocument_def)
  have online: "getModule exampleEnv
      ''http://localhost:8080/files/pkg-1.0/.haskell-code-explorer/M.hs.json'' =
      Data exampleModuleResponse"
    by (simp add: exampleEnv_def)
  have offline: "\<not> is_Data (getModule exampleOfflineEnv u)" for u
    by (simp add: exampleOfflineEnv_def)
  have later: "exampleOfflineEnv\<lparr>getModule := getModule exampleEnv\<rparr> = exampleEnv"
    by (simp add: exampleOfflineEnv_def)
  have doc: "isHaskellFile exampleDocument"
    "haskellModules exampleState ''/work/pkg/M.hs'' = None"
    "uriPath exampleDocument = ''/work/pkg/M.hs''"
    by (simp_all add: isHaskellFile_def exampleDocument_def exampleState_def)
  have pkg: "lookupPackageInfo exampleOfflineEnv exampleState exampleDocument =
      Some examplePackageInfo"
    by (simp add: lookupPackageInfo_def exampleOfflineEnv_def exampleEnv_def exampleState_def
          exampleDocument_def examplePackageInfo_def)
  have loaded: "exampleState\<lparr>haskellModules :=
      (haskellModules exampleState)(''/work/pkg/M.hs'' \<mapsto> exampleModuleInfo)\<rparr> = exampleLoadedState"
    by (simp add: exampleLoadedState_def exampleState_def)
  show ?thesis
    using module_fetch_caches_success_only [where env = exampleEnv and gs = exampleState and p = examplePackageInfo
        and d = exampleDocument and resp = exampleModuleResponse]
      module_fetch_caches_success_only [where env = exampleOfflineEnv and gs = exampleState and p = examplePackageInfo
        and d = exampleDocument and later = "getModule exampleEnv"
        and resp = exampleModuleResponse]
    by (auto simp: url online offline later doc pkg loaded exampleModuleInfo_def [symmetric])
qed

section \<open>Properties of the reference aggregator\<close>

lemma foldl_append_concat: "foldl (\<lambda>acc item. acc @ item) a xs = a @ concat xs"
  by (induction xs arbitrary: a) simp_all

lemma foldl_append_map_concat:
  "foldl (\<lambda>refs x. refs @ f x) a xs = a @ concat (map f xs)"
  by (induction xs arbitrary: a) simp_all

lemma fetchReferencesInPackage_eq:
  "fetchReferencesInPackage env pkg x =
     (spec_packageContribution env pkg x, [referencesUrl env pkg x])"
  by (cases "getReferences env (referencesUrl env pkg x)")
     (simp_all add: fetchReferencesInPackage_def fetch_def spec_packageContribution_def
        foldl_append_map_concat spec_tagWithPackage_def [abs_def])

lemma fetchAllReferences_Data:
  assumes "getGlobalReferences env (globalReferencesUrl env x) = Data found"
  shows "fetchAllReferences env gs x =
     (Some (spec_mergedReferences env (map GlobalReferences.packageId found) x),
      gs\<lparr>references := (references gs)(x \<mapsto>
           spec_mergedReferences env (map GlobalReferences.packageId found) x)\<rparr>,
      globalReferencesUrl env x #
        map (\<lambda>g. referencesUrl env (GlobalReferences.packageId g) x) found)"
  using assms
  by (simp add: fetchAllReferences_def fetch_Data Let_def fetchReferencesInPackage_eq
        foldl_append_concat spec_mergedReferences_def comp_def)

lemma fetchAllReferences_failure:
  assumes "\<not> is_Data (getGlobalReferences env (globalReferencesUrl env x))"
  shows "fetchAllReferences env gs x = (None, gs, [globalReferencesUrl env x])"
  using assms by (simp add: fetchAllReferences_def fetch_not_Data)

text \<open>
  Claim C7. When discovery succeeds, the result of \<open>fetchAllReferences\<close> is the merge the
  specification describes: the contributions of the discovered packages, concatenated in
  discovery order; it is also what is cached, and the per-package requests are started in
  that order. Every reference in a package's contribution carries that package's
  identity, and the spans of a contribution are the spans of the server's answer, source
  file after source file, in the answer's order.
\<close>

theorem references_merged_in_discovery_order:
  "(getGlobalReferences env (globalReferencesUrl env x) = Data found \<longrightarrow>
      fetchAllReferences env gs x =
        (Some (spec_mergedReferences env (map GlobalReferences.packageId found) x),
         gs\<lparr>references := (references gs)(x \<mapsto>
              spec_mergedReferences env (map GlobalReferences.packageId found) x)\<rparr>,
         globalReferencesUrl env x #
           map (\<lambda>g. referencesUrl env (GlobalReferences.packageId g) x) found)) \<and>
   (\<forall>r \<in> set (spec_packageContribution env pkg x). packageIdString r = pkg) \<and>
   (getReferences env (referencesUrl env pkg x) = Data sourceFiles \<longrightarrow>
      map ReferenceWithPackageId.idSrcSpan (spec_packageContribution env pkg x) =
      concat (map (\<lambda>sourceFile. map ReferenceWithSource.idSrcSpan
                                     (SourceFile.references sourceFile)) sourceFiles))"
proof -
  have tagged: "\<forall>r \<in> set (spec_packageContribution env pkg x). packageIdString r = pkg"
    by (cases "getReferences env (referencesUrl env pkg x)")
       (auto simp: spec_packageContribution_def spec_tagWithPackage_def [abs_def])
  have spans: "map ReferenceWithPackageId.idSrcSpan (spec_packageContribution env pkg x) =
      concat (map (\<lambda>sourceFile. map ReferenceWithSource.idSrcSpan
                                     (SourceFile.references sourceFile)) sourceFiles)"
    if "getReferences env (referencesUrl env pkg x) = Data sourceFiles"
    using that
    by (simp add: spec_packageContribution_def map_concat comp_def spec_tagWithPackage_def [abs_def])
  show ?thesis
    using fetchAllReferences_Data [of env x found gs] tagged spans by blast
qed

text \<open>
  Claim C3. When discovery returns two packages, the first package's query succeeds and
  the second one's fails, the result is exactly the first package's references, tagged and
  in order; that partial result is stored in the references cache under the external
  identifier, and all three requests were made. When discovery itself fails the result is
  absent and the state is unchanged.
\<close>

theorem partial_fan_out_is_cached:
  "(getGlobalReferences env (globalReferencesUrl env x) = Data [g1, g2] \<and>
    getReferences env (referencesUrl env (GlobalReferences.packageId g1) x) = Data sourceFiles \<and>
    \<not> is_Data (getReferences env (referencesUrl env (GlobalReferences.packageId g2) x)) \<longrightarrow>
      fetchAllReferences env gs x =
        (Some (concat (map (\<lambda>sourceFile. map (\<lambda>ref. \<lparr>packageIdString = GlobalReferences.packageId g1,
                   ReferenceWithPackageId.idSrcSpan = ReferenceWithSource.idSrcSpan ref\<rparr>)
                                              (SourceFile.references sourceFile))
                           sourceFiles)),
         gs\<lparr>references := (references gs)(x \<mapsto>
              concat (map (\<lambda>sourceFile. map (\<lambda>ref. \<lparr>packageIdString = GlobalReferences.packageId g1,
                   ReferenceWithPackageId.idSrcSpan = ReferenceWithSource.idSrcSpan ref\<rparr>)
                                             (SourceFile.references sourceFile))
                          sourceFiles))\<rparr>,
         [globalReferencesUrl env x,
          referencesUrl env (GlobalReferences.packageId g1) x,
          referencesUrl env (GlobalReferences.packageId g2) x])) \<and>
   (\<not> is_Data (getGlobalReferences env (globalReferencesUrl env x)) \<longrightarrow>
      fetchAllReferences env gs x = (None, gs, [globalReferencesUrl env x]))"
proof -
  have partial: "spec_mergedReferences env [GlobalReferences.packageId g1, GlobalReferences.packageId g2] x =
      concat (map (\<lambda>sourceFile. map (\<lambda>ref. \<lparr>packageIdString = GlobalReferences.packageId g1,
                   ReferenceWithPackageId.idSrcSpan = ReferenceWithSource.idSrcSpan ref\<rparr>)
                                     (SourceFile.references sourceFile)) sourceFiles)"
    if "getReferences env (referencesUrl env (GlobalReferences.packageId g1) x) = Data sourceFiles"
      "\<not> is_Data (getReferences env (referencesUrl env (GlobalReferences.packageId g2) x))"
    using that
    by (cases "getReferences env (referencesUrl env (GlobalReferences.packageId g2) x)")
       (simp_all add: spec_mergedReferences_def spec_packageContribution_def
          spec_tagWithPackage_def [abs_def])
  show ?thesis
    using fetchAllReferences_Data [of env x "[g1, g2]" gs] partial
      fetchAllReferences_failure [of env x gs]
    by simp
qed

lemma example_urls:
  "globalReferencesUrl exampleEnv ext = ''http://localhost:8080/api/globalReferences/'' @ ext"
  "referencesUrl exampleEnv pkg ext =
     ''http://localhost:8080/api/references/'' @ pkg @ ''/'' @ ext @ ''?per_page=500''"
  by (simp_all add: globalReferencesUrl_def referencesUrl_def getHceHost_def
        DEFAULT_HCE_HOST_def API_URL_PREFIX_def exampleEnv_def)

lemma example_answers:
  "getGlobalReferences exampleEnv ''http://localhost:8080/api/globalReferences/x'' =
     Data [\<lparr>count = 3, GlobalReferences.packageId = ''pkg-1.0''\<rparr>,
           \<lparr>count = 1, GlobalReferences.packageId = ''other-2.0''\<rparr>]"
  "getGlobalReferences exampleEnv ''http://localhost:8080/api/globalReferences/y'' = NotFound"
  "getReferences exampleEnv ''http://localhost:8080/api/references/pkg-1.0/x?per_page=500'' =
     Data exampleSourceFiles"
  "getReferences exampleEnv ''http://localhost:8080/api/references/other-2.0/x?per_page=500'' =
     OtherFailure"
  by (simp_all add: exampleEnv_def)

lemma example_contribution:
  "concat (map (\<lambda>sourceFile. map (\<lambda>ref. \<lparr>packageIdString = ''pkg-1.0'',
                   ReferenceWithPackageId.idSrcSpan = ReferenceWithSource.idSrcSpan ref\<rparr>)
                                 (SourceFile.references sourceFile)) exampleSourceFiles) =
   exampleMerged"
  by (simp add: exampleSourceFiles_def exampleMerged_def)

theorem partial_fan_out_is_cached_witness:
  "getGlobalReferences exampleEnv (globalReferencesUrl exampleEnv ''x'') =
     Data [\<lparr>count = 3, GlobalReferences.packageId = ''pkg-1.0''\<rparr>,
           \<lparr>count = 1, GlobalReferences.packageId = ''other-2.0''\<rparr>] \<and>
   getReferences exampleEnv (referencesUrl exampleEnv ''pkg-1.0'' ''x'') =
     Data exampleSourceFiles \<and>
   \<not> is_Data (getReferences exampleEnv (referencesUrl exampleEnv ''other-2.0'' ''x'')) \<and>
   fetchAllReferences exampleEnv exampleState ''x'' =
     (Some exampleMerged,
      exampleState\<lparr>references := [''x'' \<mapsto> exampleMerged]\<rparr>,
      [''http://localhost:8080/api/globalReferences/x'',
       ''http://localhost:8080/api/references/pkg-1.0/x?per_page=500'',
       ''http://localhost:8080/api/references/other-2.0/x?per_page=500'']) \<and>
   \<not> is_Data (getGlobalReferences exampleEnv (globalReferencesUrl exampleEnv ''y'')) \<and>
   fetchAllReferences exampleEnv exampleState ''y'' =
     (None, exampleState, [''http://localhost:8080/api/globalReferences/y''])"
  using partial_fan_out_is_cached [where env = exampleEnv and gs = exampleState and x = "''x''"
      and ?g1.0 = "\<lparr>count = 3, GlobalReferences.packageId = ''pkg-1.0''\<rparr>"
      and ?g2.0 = "\<lparr>count = 1, GlobalReferences.packageId = ''other-2.0''\<rparr>"
      and sourceFiles = exampleSourceFiles]
    partial_fan_out_is_cached [where env = exampleEnv and gs = exampleState and x = "''y''"]
  by (simp add: example_urls example_answers example_contribution)
     (simp add: exampleState_def)

theorem references_merged_in_discovery_order_witness:
  "getGlobalReferences exampleEnv (globalReferencesUrl exampleEnv ''x'') =
     Data [\<lparr>count = 3, GlobalReferences.packageId = ''pkg-1.0''\<rparr>,
           \<lparr>count = 1, GlobalReferences.packageId = ''other-2.0''\<rparr>] \<and>
   getReferences exampleEnv (referencesUrl exampleEnv ''pkg-1.0'' ''x'') =
     Data exampleSourceFiles \<and>
   spec_packageContribution exampleEnv ''pkg-1.0'' ''x'' = exampleMerged \<and>
   map packageIdString exampleMerged = [''pkg-1.0'', ''pkg-1.0'', ''pkg-1.0''] \<and>
   map ReferenceWithPackageId.idSrcSpan exampleMerged =
     [exampleSpan 10, exampleSpan 12, exampleSpan 7] \<and>
   fst (fetchAllReferences exampleEnv exampleState ''x'') =
     Some (spec_mergedReferences exampleEnv [''pkg-1.0'', ''other-2.0''] ''x'') \<and>
   spec_mergedReferences exampleEnv [''pkg-1.0'', ''other-2.0''] ''x'' = exampleMerged"
proof -
  have contribution: "spec_packageContribution exampleEnv ''pkg-1.0'' ''x'' = exampleMerged"
    "spec_packageContribution exampleEnv ''other-2.0'' ''x'' = []"
    by (simp_all add: spec_packageContribution_def example_urls example_answers
          example_contribution spec_tagWithPackage_def [abs_def])
  have spans: "concat (map (\<lambda>sourceFile. map ReferenceWithSource.idSrcSpan
      (SourceFile.references sourceFile)) exampleSourceFiles) =
      [exampleSpan 10, exampleSpan 12, exampleSpan 7]"
    by (simp add: exampleSourceFiles_def)
  show ?thesis
    using references_merged_in_discovery_order [where env = exampleEnv and gs = exampleState and x = "''x''"
        and found = "[\<lparr>count = 3, GlobalReferences.packageId = ''pkg-1.0''\<rparr>,
                      \<lparr>count = 1, GlobalReferences.packageId = ''other-2.0''\<rparr>]"
        and pkg = "''pkg-1.0''" and sourceFiles = exampleSourceFiles]
    by (simp add: example_urls example_answers contribution spans spec_mergedReferences_def)
       (simp add: exampleMerged_def)
qed

section \<open>Properties of go to definition\<close>

lemma example_occurrence_ids:
  "wordRangeToOccurrenceId env (exampleWordRange \<lparr>Position.line = 0, character = 7\<rparr>) =
     ''1-8-9''"
  "wordRangeToOccurrenceId env (exampleWordRange \<lparr>Position.line = 9, character = 5\<rparr>) =
     ''10-5-8''"
  by (simp_all add: wordRangeToOccurrenceId_def exampleWordRange_def plusOne_def
        roundToDouble_def numberToString_def natToString.simps digitChar_def)

lemma example_module:
  "ModuleInfo.occurrences exampleModuleInfo ''1-8-9'' = Some exampleModuleBinder"
  "ModuleInfo.occurrences exampleModuleInfo ''10-5-8'' = Some exampleBinder"
  "ModuleInfo.identifiers exampleModuleInfo ''x1'' = Some exampleIdentifier"
  "haskellModules exampleLoadedState (uriPath exampleDocument) = Some exampleModuleInfo"
  "wordRangeAtPosition exampleEnv exampleDocument position = Some (exampleWordRange position)"
  by (simp_all add: exampleModuleInfo_def exampleModuleResponse_def mapFromObject_def
        exampleLoadedState_def exampleDocument_def exampleEnv_def)

lemma example_module_location:
  "provideDefinitionFromLocationInfo exampleEnv exampleLoadedState (ExactLocation exampleExact) =
     (Some \<lparr>uri = ''/work/pkg/M.hs'', startLine = 2, startCharacter = 0,
            endLine = 2, endCharacter = 3\<rparr>,
      exampleLoadedState, [])"
  by (simp add: provideDefinitionFromLocationInfo_def exampleLoadedState_def example_defs
        packageIdToFolderPath_def packageIdToString_def)

text \<open>
  Claim C2, amended. For an occurrence with \<open>isBinder\<close> set that the go-to-definition
  provider looks up in a cached module: when its sort is \<open>ValueId\<close> or \<open>TypeId\<close> the
  provider returns no location, makes no request and leaves the state unchanged, whether
  or not the occurrence resolves to an identifier. When its sort is \<open>ModuleId\<close> (and
  the word is on one line) the provider resolves the location carried by the sort, and
  \<open>isBinder\<close> is not consulted.
\<close>

theorem binder_excluded_unless_module:
  "(wordRangeAtPosition env document position = Some wordRange \<and>
    haskellModules gs (uriPath document) = Some moduleInfo \<and>
    ModuleInfo.occurrences moduleInfo (wordRangeToOccurrenceId env wordRange) = Some occurrence \<and>
    isBinder occurrence \<and>
    (IdentifierOccurrence.sort occurrence = ValueId \<or>
     IdentifierOccurrence.sort occurrence = TypeId) \<longrightarrow>
      provideDefinition env gs document position = (None, gs, [])) \<and>
   (wordRangeAtPosition env document position = Some wordRange \<and>
    Position.line (start wordRange) = Position.line (end wordRange) \<and>
    haskellModules gs (uriPath document) = Some moduleInfo \<and>
    ModuleInfo.occurrences moduleInfo (wordRangeToOccurrenceId env wordRange) = Some occurrence \<and>
    IdentifierOccurrence.sort occurrence = ModuleId contents \<longrightarrow>
      provideDefinition env gs document position =
        provideDefinitionFromLocationInfo env gs contents)"
proof -
  have gate: "provideDefinition env gs document position = (None, gs, [])"
    if "wordRangeAtPosition env document position = Some wordRange"
       "haskellModules gs (uriPath document) = Some moduleInfo"
       "ModuleInfo.occurrences moduleInfo (wordRangeToOccurrenceId env wordRange) = Some occurrence"
       "isBinder occurrence"
       "IdentifierOccurrence.sort occurrence = ValueId \<or>
        IdentifierOccurrence.sort occurrence = TypeId"
    using that by (auto simp: provideDefinition_def split: option.splits)
  have module: "provideDefinition env gs document position =
        provideDefinitionFromLocationInfo env gs contents"
    if "wordRangeAtPosition env document position = Some wordRange"
       "Position.line (start wordRange) = Position.line (end wordRange)"
       "haskellModules gs (uriPath document) = Some moduleInfo"
       "ModuleInfo.occurrences moduleInfo (wordRangeToOccurrenceId env wordRange) = Some occurrence"
       "IdentifierOccurrence.sort occurrence = ModuleId contents"
    using that by (simp add: provideDefinition_def)
  show ?thesis using gate module by blast
qed

text \<open>
  Claim C2 as stated fails for module occurrences: in the example module the occurrence
  at \<open>1-8-9\<close> has \<open>isBinder\<close> set and sort \<open>ModuleId\<close>, and go-to-definition on it
  returns the location of the module.
\<close>

theorem module_binder_is_resolved:
  "wordRangeAtPosition exampleEnv exampleDocument \<lparr>Position.line = 0, character = 7\<rparr> =
     Some (exampleWordRange \<lparr>Position.line = 0, character = 7\<rparr>) \<and>
   haskellModules exampleLoadedState (uriPath exampleDocument) = Some exampleModuleInfo \<and>
   ModuleInfo.occurrences exampleModuleInfo
     (wordRangeToOccurrenceId exampleEnv (exampleWordRange \<lparr>Position.line = 0, character = 7\<rparr>)) =
     Some exampleModuleBinder \<and>
   isBinder exampleModuleBinder \<and>
   provideDefinition exampleEnv exampleLoadedState exampleDocument
     \<lparr>Position.line = 0, character = 7\<rparr> =
     (Some \<lparr>uri = ''/work/pkg/M.hs'', startLine = 2, startCharacter = 0,
            endLine = 2, endCharacter = 3\<rparr>,
      exampleLoadedState, []) \<and>
   fst (provideDefinition exampleEnv exampleLoadedState exampleDocument
          \<lparr>Position.line = 0, character = 7\<rparr>) \<noteq> None"
proof -
  have "provideDefinition exampleEnv exampleLoadedState exampleDocument
      \<lparr>Position.line = 0, character = 7\<rparr> =
      provideDefinitionFromLocationInfo exampleEnv exampleLoadedState (ExactLocation exampleExact)"
    by (simp add: provideDefinition_def example_module example_occurrence_ids)
       (simp add: exampleModuleBinder_def exampleWordRange_def)
  then show ?thesis
    by (simp add: example_module example_occurrence_ids example_module_location
          exampleModuleBinder_def)
qed

theorem binder_excluded_unless_module_witness:
  "wordRangeAtPosition exampleEnv exampleDocument \<lparr>Position.line = 9, character = 5\<rparr> =
     Some (exampleWordRange \<lparr>Position.line = 9, character = 5\<rparr>) \<and>
   haskellModules exampleLoadedState (uriPath exampleDocument) = Some exampleModuleInfo \<and>
   ModuleInfo.occurrences exampleModuleInfo
     (wordRangeToOccurrenceId exampleEnv (exampleWordRange \<lparr>Position.line = 9, character = 5\<rparr>)) =
     Some exampleBinder \<and>
   isBinder exampleBinder \<and>
   IdentifierOccurrence.sort exampleBinder = ValueId \<and>
   ModuleInfo.identifiers exampleModuleInfo ''x1'' = Some exampleIdentifier \<and>
   provideDefinition exampleEnv exampleLoadedState exampleDocument
     \<lparr>Position.line = 9, character = 5\<rparr> = (None, exampleLoadedState, []) \<and>
   IdentifierOccurrence.sort exampleModuleBinder = ModuleId (ExactLocation exampleExact) \<and>
   provideDefinition exampleEnv exampleLoadedState exampleDocument
     \<lparr>Position.line = 0, character = 7\<rparr> =
     provideDefinitionFromLocationInfo exampleEnv exampleLoadedState (ExactLocation exampleExact)"
proof -
  have occurrence: "isBinder exampleBinder \<and> IdentifierOccurrence.sort exampleBinder = ValueId"
    "IdentifierOccurrence.sort exampleModuleBinder = ModuleId (ExactLocation exampleExact)"
    by (simp_all add: exampleBinder_def exampleModuleBinder_def)
  have oneline: "Position.line (start (exampleWordRange position)) =
      Position.line (end (exampleWordRange position))" for position
    by (simp add: exampleWordRange_def)
  show ?thesis
    using binder_excluded_unless_module
        [of exampleEnv exampleDocument "\<lparr>Position.line = 9, character = 5\<rparr>"
            "exampleWordRange \<lparr>Position.line = 9, character = 5\<rparr>"
            exampleLoadedState exampleModuleInfo exampleBinder]
      binder_excluded_unless_module
        [of exampleEnv exampleDocument "\<lparr>Position.line = 0, character = 7\<rparr>"
            "exampleWordRange \<lparr>Position.line = 0, character = 7\<rparr>"
            exampleLoadedState exampleModuleInfo exampleModuleBinder
            "ExactLocation exampleExact"]
      occurrence oneline
    by (simp add: example_module example_occurrence_ids)
qed

end
